theory Spec2Isabelle
  imports Main
begin

section \<open>Data model\<close>

text \<open>
  The selection types of \<^verbatim>\<open>src/mcp/types\<close> as \<^verbatim>\<open>workspace-manager.ts\<close> uses them.
  Lines and characters are JavaScript numbers that only ever hold non-negative integers
  (document offsets and differences \<open>pos - line.from\<close> with \<open>line.from \<le> pos\<close>), so they
  are natural numbers here. The field \<^verbatim>\<open>end\<close> of a SelectionRange is called \<open>end_pos\<close>
  (and \<^verbatim>\<open>start\<close> accordingly \<open>start_pos\<close>), \<^verbatim>\<open>text\<close> fields carry a prefix.
\<close>

record position =
  line :: nat
  character :: nat

record selection_range =
  start_pos :: position
  end_pos :: position
  isEmpty :: bool

text \<open>The value \<^verbatim>\<open>getCurrentSelection\<close> returns (when it is not \<^verbatim>\<open>null\<close>).\<close>

record snapshot =
  snap_text :: string
  snap_filePath :: "string option"
  snap_selection :: selection_range
  fromCache :: bool

text \<open>
  References to \<^verbatim>\<open>MarkdownView\<close> objects are addresses into a store of views
  (\<open>viewStore\<close> below): the cache keeps a reference, and what is read through it is the
  state of the view at the time of the read.
\<close>

type_synonym view_ref = nat

text \<open>
  \<^verbatim>\<open>CachedSelectionState\<close>. The source tests \<^verbatim>\<open>if (this.cachedSelectionState.view)\<close>
  before it reads through the reference, so the field is nullable here.
\<close>

record cached_selection_state =
  c_text :: string
  c_filePath :: string
  c_fileUrl :: string
  c_selection :: selection_range
  c_view :: "view_ref option"
  c_timestamp :: nat

text \<open>\<^verbatim>\<open>SelectionChangedParams\<close> and the \<^verbatim>\<open>McpNotification\<close> that wraps it.\<close>

record selection_changed_params =
  p_text :: string
  p_filePath :: "string option"
  p_fileUrl :: "string option"
  p_selection :: selection_range

record mcp_notification =
  jsonrpc :: string
  rpc_method :: string
  params :: selection_changed_params

section \<open>The editor interface\<close>

subsection \<open>Transaction state\<close>

text \<open>
  The state of the text editor behind \<^verbatim>\<open>(editor as any).cm.state\<close>, as far as the
  sources read it: a document and \<^verbatim>\<open>selection.main\<close>. The main selection has an anchor
  and a head; \<^verbatim>\<open>from\<close> is the smaller of the two, \<^verbatim>\<open>to\<close> the larger and \<^verbatim>\<open>empty\<close>
  says that they coincide. The document is a string whose lines are separated by one
  line-break character, which counts as one character of an offset.
\<close>

record editor_state =
  doc :: string
  sel_anchor :: nat
  sel_head :: nat

definition main_from :: "editor_state \<Rightarrow> nat" where
  "main_from st = min (sel_anchor st) (sel_head st)"

definition main_to :: "editor_state \<Rightarrow> nat" where
  "main_to st = max (sel_anchor st) (sel_head st)"

definition main_empty :: "editor_state \<Rightarrow> bool" where
  "main_empty st = (main_from st = main_to st)"

definition lineBreak :: char where
  "lineBreak = CHR 0x0A"

record cm_line =
  line_number :: nat
  line_from :: nat

text \<open>
  Modelled from the spec: \<^verbatim>\<open>doc.lineAt\<close> belongs to the editor library, which is not
  part of the sources. \<^verbatim>\<open>lineAt(pos)\<close> locates the line containing the offset: its
  1-based number (one more than the number of line breaks before \<open>pos\<close>) and its starting
  offset (\<open>pos\<close> less the characters that follow the last line break before \<open>pos\<close>). An
  offset beyond the document is an error (\<open>None\<close>), which the callers catch.
\<close>

definition lineAt :: "string \<Rightarrow> nat \<Rightarrow> cm_line option" where
  "lineAt d pos =
     (if length d < pos then None
      else Some \<lparr>line_number = Suc (count_list (take pos d) lineBreak),
                 line_from = pos - length (takeWhile (\<lambda>c. c \<noteq> lineBreak) (rev (take pos d)))\<rparr>)"

text \<open>
  Modelled from the spec: \<^verbatim>\<open>doc.sliceString\<close> belongs to the editor library as well.
  \<^verbatim>\<open>sliceString(from, to)\<close> is the substring of the document between two offsets.
\<close>

definition sliceString :: "string \<Rightarrow> nat \<Rightarrow> nat \<Rightarrow> string" where
  "sliceString d f t = take (t - f) (drop f d)"

subsection \<open>The plain accessor and the view\<close>

text \<open>
  An \<^verbatim>\<open>Editor\<close> as the source reads it: the transaction state (\<open>None\<close> when reaching
  \<^verbatim>\<open>.cm.state\<close> throws) and the results of \<^verbatim>\<open>getSelection()\<close>, \<^verbatim>\<open>getCursor()\<close>,
  \<^verbatim>\<open>getCursor("from")\<close> and \<^verbatim>\<open>getCursor("to")\<close>.
\<close>

record editor_position =
  ep_line :: nat
  ch :: nat

record editor =
  cm :: "editor_state option"
  getSelection :: string
  getCursor :: editor_position
  getCursorFrom :: editor_position
  getCursorTo :: editor_position

record markdown_view =
  view_editor :: "editor option"

record tfile =
  path :: string

text \<open>
  What the host application answers during one call: \<^verbatim>\<open>getActiveViewOfType(MarkdownView)\<close>,
  \<^verbatim>\<open>getActiveFile()\<close>, the objects behind the view references, \<^verbatim>\<open>Date.now()\<close>, and
  the path resolution of \<^verbatim>\<open>getAbsolutePath\<close> (its helper in \<^verbatim>\<open>./utils\<close> is not part of
  the sources and is a parameter).
\<close>

record workspace =
  getActiveViewOfType :: "view_ref option"
  getActiveFile :: "tfile option"
  viewStore :: "view_ref \<Rightarrow> markdown_view"
  dateNow :: nat
  getAbsolutePath :: "string \<Rightarrow> string"

record workspace_manager =
  cachedSelectionState :: "cached_selection_state option"

section \<open>Selection reads\<close>

text \<open>
  The transaction-state read. The source has this block three times, word for word: in
  \<^verbatim>\<open>sendSelectionContext\<close> (lines 197-232), in the live branch of
  \<^verbatim>\<open>getCurrentSelection\<close> (lines 330-370) and in its cached branch (lines 415-455).
  \<open>None\<close> is the exception the enclosing \<^verbatim>\<open>try\<close> catches.
\<close>

definition readTransactionState :: "editor \<Rightarrow> (string \<times> selection_range) option" where
  "readTransactionState e =
     (case cm e of
        None \<Rightarrow> None
      | Some st \<Rightarrow>
          (let hasSelection = \<not> main_empty st;
               txt = (if hasSelection then sliceString (doc st) (main_from st) (main_to st) else [])
           in case lineAt (doc st) (main_from st) of
                None \<Rightarrow> None
              | Some fromLine \<Rightarrow>
                  (case lineAt (doc st) (main_to st) of
                     None \<Rightarrow> None
                   | Some toLine \<Rightarrow>
                       Some (txt,
                         if hasSelection
                         then \<lparr>start_pos = \<lparr>line = line_number fromLine - 1,
                                           character = main_from st - line_from fromLine\<rparr>,
                               end_pos = \<lparr>line = line_number toLine - 1,
                                         character = main_to st - line_from toLine\<rparr>,
                               isEmpty = False\<rparr>
                         else \<lparr>start_pos = \<lparr>line = line_number fromLine - 1,
                                           character = main_from st - line_from fromLine\<rparr>,
                               end_pos = \<lparr>line = line_number fromLine - 1,
                                         character = main_from st - line_from fromLine\<rparr>,
                               isEmpty = True\<rparr>))))"

text \<open>
  The fallback on the plain accessor (lines 235-253 and 380-399): the selection is empty
  exactly when \<^verbatim>\<open>getSelection()\<close> has length 0.
\<close>

definition readEditorApi :: "editor \<Rightarrow> string \<times> selection_range" where
  "readEditorApi e =
     (let selection = getSelection e;
          cursor = getCursor e;
          hasSelection = (0 < length selection)
      in (selection,
          if hasSelection
          then \<lparr>start_pos = \<lparr>line = ep_line (getCursorFrom e), character = ch (getCursorFrom e)\<rparr>,
                end_pos = \<lparr>line = ep_line (getCursorTo e), character = ch (getCursorTo e)\<rparr>,
                isEmpty = False\<rparr>
          else \<lparr>start_pos = \<lparr>line = ep_line cursor, character = ch cursor\<rparr>,
                end_pos = \<lparr>line = ep_line cursor, character = ch cursor\<rparr>,
                isEmpty = True\<rparr>))"

section \<open>The workspace manager\<close>

text \<open>
  An operation takes the manager and the host's answers and returns what it handed to
  \<^verbatim>\<open>config.onSelectionChange\<close>, in order, with the manager it leaves behind. The
  console output and the debug log written through the vault adapter are not part of
  the model.
\<close>

definition broadcastSelectionChange :: "selection_changed_params \<Rightarrow> mcp_notification" where
  "broadcastSelectionChange ps =
     \<lparr>jsonrpc = ''2.0'', rpc_method = ''selection_changed'', params = ps\<rparr>"

definition fileUrlOf :: "workspace \<Rightarrow> string \<Rightarrow> string" where
  "fileUrlOf w p = ''file://'' @ getAbsolutePath w p"

text \<open>
  The guards of lines 320-326 of \<^verbatim>\<open>getCurrentSelection\<close>: an active Markdown view
  that has an editor, and an active file.
\<close>

definition focusedEditor :: "workspace \<Rightarrow> (editor \<times> tfile) option" where
  "focusedEditor w =
     (case getActiveViewOfType w of
        None \<Rightarrow> None
      | Some activeView \<Rightarrow>
          (case view_editor (viewStore w activeView) of
             None \<Rightarrow> None
           | Some e \<Rightarrow>
               (case getActiveFile w of
                  None \<Rightarrow> None
                | Some activeFile \<Rightarrow> Some (e, activeFile))))"

text \<open>
  Lines 330-407: the read through the focused editor, from the transaction state or,
  when that throws, from the plain accessor.
\<close>

definition liveSelection :: "editor \<Rightarrow> tfile \<Rightarrow> snapshot" where
  "liveSelection e activeFile =
     (case readTransactionState e of
        Some (txt, selectionRange) \<Rightarrow>
          \<lparr>snap_text = txt, snap_filePath = Some (path activeFile),
           snap_selection = selectionRange, fromCache = False\<rparr>
      | None \<Rightarrow>
          (case readEditorApi e of
             (selection, selectionRange) \<Rightarrow>
               \<lparr>snap_text = selection, snap_filePath = Some (path activeFile),
                snap_selection = selectionRange, fromCache = False\<rparr>))"

text \<open>
  Lines 414-466: the read through the cached view reference. \<open>None\<close> when the reference
  is null or anything on the way to the selection throws.
\<close>

definition rereadCachedView :: "workspace \<Rightarrow> cached_selection_state \<Rightarrow> (string \<times> selection_range) option" where
  "rereadCachedView w c =
     (case c_view c of
        None \<Rightarrow> None
      | Some v \<Rightarrow>
          (case view_editor (viewStore w v) of
             None \<Rightarrow> None
           | Some e \<Rightarrow> readTransactionState e))"

text \<open>Lines 411-475: the answer from a cache that exists.\<close>

definition cachedSelection :: "workspace \<Rightarrow> cached_selection_state \<Rightarrow> snapshot" where
  "cachedSelection w c =
     (case rereadCachedView w c of
        Some (txt, selectionRange) \<Rightarrow>
          \<lparr>snap_text = txt, snap_filePath = Some (c_filePath c),
           snap_selection = selectionRange, fromCache = False\<rparr>
      | None \<Rightarrow>
          \<lparr>snap_text = c_text c, snap_filePath = Some (c_filePath c),
           snap_selection = c_selection c, fromCache = True\<rparr>)"

text \<open>
  \<^verbatim>\<open>getCurrentSelection\<close>. No branch of the source assigns to
  \<^verbatim>\<open>this.cachedSelectionState\<close>, so every branch returns the manager it was given.
\<close>

definition getCurrentSelection :: "workspace_manager \<Rightarrow> workspace \<Rightarrow> snapshot option \<times> workspace_manager" where
  "getCurrentSelection m w =
     (case focusedEditor w of
        Some (e, activeFile) \<Rightarrow> (Some (liveSelection e activeFile), m)
      | None \<Rightarrow>
          (case cachedSelectionState m of
             Some c \<Rightarrow> (Some (cachedSelection w c), m)
           | None \<Rightarrow> (None, m)))"

definition emptyRange :: selection_range where
  "emptyRange = \<lparr>start_pos = \<lparr>line = 0, character = 0\<rparr>,
                 end_pos = \<lparr>line = 0, character = 0\<rparr>, isEmpty = True\<rparr>"

text \<open>
  The \<^verbatim>\<open>else\<close> branch of \<^verbatim>\<open>sendCurrentFileContext\<close> (lines 169-180): no selection
  available.
\<close>

definition noSelectionParams :: "workspace \<Rightarrow> selection_changed_params" where
  "noSelectionParams w =
     \<lparr>p_text = [], p_filePath = map_option path (getActiveFile w),
      p_fileUrl = map_option (\<lambda>activeFile. fileUrlOf w (path activeFile)) (getActiveFile w),
      p_selection = emptyRange\<rparr>"

text \<open>
  The test \<^verbatim>\<open>currentSelection && currentSelection.filePath\<close> of line 159 holds for a
  snapshot whose file path is neither \<^verbatim>\<open>null\<close> nor the empty string.
\<close>

definition shapeParams :: "workspace \<Rightarrow> snapshot option \<Rightarrow> selection_changed_params" where
  "shapeParams w currentSelection =
     (case currentSelection of
        None \<Rightarrow> noSelectionParams w
      | Some snap \<Rightarrow>
          (case snap_filePath snap of
             None \<Rightarrow> noSelectionParams w
           | Some p \<Rightarrow>
               if p = [] then noSelectionParams w
               else \<lparr>p_text = snap_text snap, p_filePath = Some p,
                     p_fileUrl = Some (fileUrlOf w p), p_selection = snap_selection snap\<rparr>))"

definition sendCurrentFileContext :: "workspace_manager \<Rightarrow> workspace \<Rightarrow> mcp_notification list \<times> workspace_manager" where
  "sendCurrentFileContext m w =
     (case getCurrentSelection m w of
        (currentSelection, m') \<Rightarrow> ([broadcastSelectionChange (shapeParams w currentSelection)], m'))"

text \<open>
  \<^verbatim>\<open>sendSelectionContext\<close>: nothing without an active file; otherwise one notification
  from the read, and the cache written when \<^verbatim>\<open>getActiveViewOfType(MarkdownView)\<close>
  found a view.
\<close>

definition sendSelectionContext :: "workspace_manager \<Rightarrow> workspace \<Rightarrow> editor \<Rightarrow> mcp_notification list \<times> workspace_manager" where
  "sendSelectionContext m w e =
     (case getActiveFile w of
        None \<Rightarrow> ([], m)
      | Some activeFile \<Rightarrow>
          (case (case readTransactionState e of Some r \<Rightarrow> r | None \<Rightarrow> readEditorApi e) of
             (selection, selectionRange) \<Rightarrow>
               (let filePath = path activeFile;
                    fileUrl = fileUrlOf w (path activeFile);
                    ps = \<lparr>p_text = selection, p_filePath = Some filePath,
                          p_fileUrl = Some fileUrl, p_selection = selectionRange\<rparr>;
                    m' = (case getActiveViewOfType w of
                            Some activeView \<Rightarrow>
                              m\<lparr>cachedSelectionState :=
                                  Some \<lparr>c_text = selection, c_filePath = filePath,
                                        c_fileUrl = fileUrl, c_selection = selectionRange,
                                        c_view = Some activeView, c_timestamp = dateNow w\<rparr>\<rparr>
                          | None \<Rightarrow> m)
                in ([broadcastSelectionChange ps], m'))))"

text \<open>
  The listeners of \<^verbatim>\<open>setupListeners\<close>. A selection-change event carries the answer of
  the DOM test \<^verbatim>\<open>isSelectionInEditableNote\<close> and the editor of the active leaf's view, if
  it has one.
\<close>

datatype event =
  ActiveLeafChange
| FileOpen "tfile option"
| SelectionChange bool "editor option"

fun handleEvent :: "workspace_manager \<Rightarrow> workspace \<Rightarrow> event \<Rightarrow> mcp_notification list \<times> workspace_manager" where
  "handleEvent m w ActiveLeafChange = sendCurrentFileContext m w"
| "handleEvent m w (FileOpen None) = ([], m)"
| "handleEvent m w (FileOpen (Some f)) = sendCurrentFileContext m w"
| "handleEvent m w (SelectionChange False ed) = ([], m)"
| "handleEvent m w (SelectionChange True None) = ([], m)"
| "handleEvent m w (SelectionChange True (Some e)) = sendSelectionContext m w e"




section \<open>The highlight overlay\<close>

text \<open>
  A decoration set is the list of its ranges \<open>(from, to, decoration)\<close>;
  \<^verbatim>\<open>Decoration.none\<close> is the empty one. The only decoration is the mark with the
  editor's own selection class.
\<close>

datatype decoration = Mark string

type_synonym decoration_set = "(nat \<times> nat \<times> decoration) list"

definition Decoration_none :: decoration_set where
  "Decoration_none = []"

definition selectionMark :: decoration where
  "selectionMark = Mark ''cm-selectionBackground''"

text \<open>
  The effects of a transaction: \<^verbatim>\<open>setSelectionHighlight\<close> with its value
  (\<^verbatim>\<open>{from, to}\<close> or \<^verbatim>\<open>null\<close>), or an effect of another kind, for which
  \<^verbatim>\<open>effect.is(setSelectionHighlight)\<close> is false. The offsets are document positions
  (the handler takes them from the main selection), hence natural numbers.
\<close>

datatype state_effect =
  SetSelectionHighlight "(nat \<times> nat) option"
| OtherEffect

text \<open>
  A change replaces the text between two offsets of the document before the transaction
  by \<open>ch_insert\<close> characters. The changes of a transaction (\<^verbatim>\<open>tr.changes\<close>) all speak of
  that document, in ascending order and apart from each other (changes that touch are
  one change).
\<close>

record change =
  ch_from :: nat
  ch_to :: nat
  ch_insert :: nat



record transaction =
  effects :: "state_effect list"
  changes :: "change list"
  tr_state :: editor_state

definition docChanged :: "transaction \<Rightarrow> bool" where
  "docChanged tr = (changes tr \<noteq> [])"

text \<open>
  Modelled from the spec: the change-mapping transform behind
  \<^verbatim>\<open>decorations.map(tr.changes)\<close> belongs to the editor library, which is not part of the
  sources. The spec describes it as a coordinate transform applied to the stored
  offsets: insertions and deletions before an offset shift it, edits inside a span
  hollow it out. The cases the spec leaves open follow the library. \<open>mapPosFrom\<close> walks
  the changes: \<open>posA\<close> is the offset reached in the document before the transaction,
  \<open>posB\<close> the offset it has in the document after it. An offset before the next change
  moves with the text it stands in. An offset inside replaced text goes to the start of
  the replacement when it is mapped as the end of a range (\<open>asEnd\<close>), and behind the
  inserted text when it is mapped as the start of a range; at the very start of
  replaced text it stays in front, at its very end it goes behind the inserted text, and
  at an insertion it stays in front only as the end of a range. The library raises an error for an offset beyond the document; the
  offsets of a range the field holds lie within it.
\<close>

fun mapPosFrom :: "nat \<Rightarrow> nat \<Rightarrow> change list \<Rightarrow> nat \<Rightarrow> bool \<Rightarrow> nat" where
  "mapPosFrom posA posB [] pos asEnd = posB + (pos - posA)"
| "mapPosFrom posA posB (c # cs) pos asEnd =
     (if pos < ch_from c then posB + (pos - posA)
      else if pos < ch_to c \<or> (ch_to c = pos \<and> asEnd \<and> ch_from c = ch_to c)
      then (if pos = ch_from c \<or> asEnd then posB + (ch_from c - posA)
            else posB + (ch_from c - posA) + ch_insert c)
      else mapPosFrom (ch_to c) (posB + (ch_from c - posA) + ch_insert c) cs pos asEnd)"

definition mapPos :: "change list \<Rightarrow> nat \<Rightarrow> bool \<Rightarrow> nat" where
  "mapPos cs pos asEnd = mapPosFrom 0 0 cs pos asEnd"

text \<open>
  Modelled from the spec: \<^verbatim>\<open>decorations.map(tr.changes)\<close> maps the start of every range
  as a start and its end as an end (the mark is not inclusive: text inserted at either
  end stays outside), and keeps the range only if the mapped start lies before the
  mapped end. A mark whose text is gone is dropped from the set. The ranges of the
  field are marks over some text (\<open>from < to\<close>): \<^verbatim>\<open>update\<close> creates no other.
\<close>

definition mapDecorations :: "change list \<Rightarrow> decoration_set \<Rightarrow> decoration_set" where
  "mapDecorations cs ds =
     filter (\<lambda>(f, t, d). f < t) (map (\<lambda>(f, t, d). (mapPos cs f False, mapPos cs t True, d)) ds)"

text \<open>
  The loop over \<^verbatim>\<open>tr.effects\<close> in \<^verbatim>\<open>update\<close> (lines 48-60): the first effect that is a
  \<^verbatim>\<open>setSelectionHighlight\<close> decides, \<open>None\<close> when there is none.
\<close>

fun effectDecorations :: "nat \<Rightarrow> state_effect list \<Rightarrow> decoration_set option" where
  "effectDecorations n [] = None"
| "effectDecorations n (SetSelectionHighlight None # es) = Some Decoration_none"
| "effectDecorations n (SetSelectionHighlight (Some (f, t)) # es) =
     (if f < t \<and> t \<le> n then Some [(f, t, selectionMark)] else Some Decoration_none)"
| "effectDecorations n (OtherEffect # es) = effectDecorations n es"

text \<open>
  \<^verbatim>\<open>selectionHighlightField\<close>: \<^verbatim>\<open>create\<close> and \<^verbatim>\<open>update\<close>. The test
  \<^verbatim>\<open>decorations !== Decoration.none\<close> is the test for the empty set; mapping the empty
  set gives the empty set on either side of it.
\<close>

definition create :: decoration_set where
  "create = Decoration_none"

definition update :: "decoration_set \<Rightarrow> transaction \<Rightarrow> decoration_set" where
  "update decorations tr =
     (case effectDecorations (length (doc (tr_state tr))) (effects tr) of
        Some ds \<Rightarrow> ds
      | None \<Rightarrow>
          if docChanged tr \<and> decorations \<noteq> Decoration_none
          then mapDecorations (changes tr) decorations
          else decorations)"

text \<open>\<^verbatim>\<open>focusChangeHandler\<close>: the effect for a focus change, \<open>None\<close> for \<^verbatim>\<open>null\<close>.\<close>

definition focusChangeHandler :: "editor_state \<Rightarrow> bool \<Rightarrow> state_effect option" where
  "focusChangeHandler st focusing =
     (if focusing then Some (SetSelectionHighlight None)
      else if \<not> main_empty st
           then Some (SetSelectionHighlight (Some (main_from st, main_to st)))
           else None)"

text \<open>
  Modelled from the spec: on a focus change the editor dispatches the effect the handler
  returns, in a transaction that changes nothing else, and dispatches nothing when the
  handler returns \<^verbatim>\<open>null\<close>.
\<close>

definition focusChange :: "decoration_set \<Rightarrow> editor_state \<Rightarrow> bool \<Rightarrow> decoration_set" where
  "focusChange decorations st focusing =
     (case focusChangeHandler st focusing of
        None \<Rightarrow> decorations
      | Some eff \<Rightarrow> update decorations \<lparr>effects = [eff], changes = [], tr_state = st\<rparr>)"

section \<open>Documents as lines\<close>

text \<open>
  To speak of "character \<open>c\<close> of line \<open>l\<close>": the document whose lines are \<open>ls\<close>, and the
  offset in it of the 0-based position \<open>(l, c)\<close>, which has every earlier line and its
  line break before it.
\<close>

fun joinLines :: "string list \<Rightarrow> string" where
  "joinLines [] = []"
| "joinLines [l] = l"
| "joinLines (l # ls) = l @ lineBreak # joinLines ls"

definition offsetOf :: "string list \<Rightarrow> nat \<Rightarrow> nat \<Rightarrow> nat" where
  "offsetOf ls l c = sum_list (map (\<lambda>x. Suc (length x)) (take l ls)) + c"

text \<open>The lines of a document: every document is the join of its lines.\<close>

fun splitLines :: "string \<Rightarrow> string list" where
  "splitLines [] = [[]]"
| "splitLines (x # xs) =
     (if x = lineBreak then [] # splitLines xs
      else (case splitLines xs of
              [] \<Rightarrow> [[x]]
            | l # ls \<Rightarrow> (x # l) # ls))"

section \<open>Example states\<close>

text \<open>
  A note of three one-line paragraphs whose editor has characters 5 to 10 of line 2
  selected (offsets 27 to 32), and an editor that answers through the plain accessor
  only.
\<close>

definition paragraphs :: "string list" where
  "paragraphs = [''alpha line'', ''beta line.'', ''0123456789abcdef'']"

definition paragraphState :: editor_state where
  "paragraphState = \<lparr>doc = joinLines paragraphs, sel_anchor = 27, sel_head = 32\<rparr>"

definition paragraphEditor :: editor where
  "paragraphEditor =
     \<lparr>cm = Some paragraphState, getSelection = ''56789'',
      getCursor = \<lparr>ep_line = 2, ch = 10\<rparr>,
      getCursorFrom = \<lparr>ep_line = 2, ch = 5\<rparr>,
      getCursorTo = \<lparr>ep_line = 2, ch = 10\<rparr>\<rparr>"

definition accessorEditor :: editor where
  "accessorEditor =
     \<lparr>cm = None, getSelection = ''x'',
      getCursor = \<lparr>ep_line = 0, ch = 0\<rparr>,
      getCursorFrom = \<lparr>ep_line = 0, ch = 0\<rparr>,
      getCursorTo = \<lparr>ep_line = 0, ch = 0\<rparr>\<rparr>"

text \<open>
  Workspaces: view 11 is the note's Markdown view, view 12 a view that has lost its
  editor, view 13 a view whose editor answers through the plain accessor only. In
  \<open>editingWorkspace\<close> the note has the focus, in \<open>panelWorkspace\<close> a panel that is not a
  Markdown view has it, in \<open>closedWorkspace\<close> the views have lost their editors as well,
  in \<open>emptyWorkspace\<close> nothing is open.
\<close>

definition exampleViews :: "view_ref \<Rightarrow> markdown_view" where
  "exampleViews v =
     \<lparr>view_editor = (if v = 11 then Some paragraphEditor
                     else if v = 13 then Some accessorEditor else None)\<rparr>"

definition editingWorkspace :: workspace where
  "editingWorkspace =
     \<lparr>getActiveViewOfType = Some 11, getActiveFile = Some \<lparr>path = ''notes/today.md''\<rparr>,
      viewStore = exampleViews, dateNow = 5000,
      getAbsolutePath = (\<lambda>p. ''/vault/'' @ p)\<rparr>"

definition accessorWorkspace :: workspace where
  "accessorWorkspace = editingWorkspace\<lparr>getActiveViewOfType := Some 13\<rparr>"

definition panelWorkspace :: workspace where
  "panelWorkspace = editingWorkspace\<lparr>getActiveViewOfType := None\<rparr>"


definition emptyWorkspace :: workspace where
  "emptyWorkspace = editingWorkspace\<lparr>getActiveViewOfType := None, getActiveFile := None\<rparr>"


definition noCache :: workspace_manager where
  "noCache = \<lparr>cachedSelectionState = None\<rparr>"

definition oldSelection :: selection_range where
  "oldSelection = \<lparr>start_pos = \<lparr>line = 0, character = 1\<rparr>,
                   end_pos = \<lparr>line = 0, character = 4\<rparr>, isEmpty = False\<rparr>"

text \<open>Caches holding an earlier selection \<open>''lph''\<close> of the note, through views 11 and 12.\<close>

definition cachedNote :: "view_ref option \<Rightarrow> string \<Rightarrow> cached_selection_state" where
  "cachedNote v p =
     \<lparr>c_text = ''lph'', c_filePath = p, c_fileUrl = ''file:///vault/'' @ p,
      c_selection = oldSelection, c_view = v, c_timestamp = 4000\<rparr>"

section \<open>Properties of the highlight overlay\<close>

lemma effectDecorations_skip:
  "set pre \<subseteq> {OtherEffect} \<Longrightarrow> effectDecorations n (pre @ es) = effectDecorations n es"
  by (induction pre) auto

lemma effectDecorations_cases:
  "effectDecorations n es = None \<and> (\<forall>v. SetSelectionHighlight v \<notin> set es)
   \<or> effectDecorations n es = Some Decoration_none
   \<or> (\<exists>f t. f < t \<and> t \<le> n \<and> effectDecorations n es = Some [(f, t, selectionMark)])"
  by (induction n es rule: effectDecorations.induct) auto


text \<open>
  C7. The focus-transition function: gaining focus produces the clearing effect, and
  \<^verbatim>\<open>update\<close> answers a transaction that carries it with \<^verbatim>\<open>Decoration.none\<close>, so the
  field becomes empty; losing focus with a non-empty main selection produces the effect
  that sets the decoration to exactly \<open>(from, to)\<close> of that selection; losing focus with
  an empty selection produces no effect, so nothing is dispatched and the field stays
  as it was.
\<close>

theorem focus_transition:
  "(focusChangeHandler st True = Some (SetSelectionHighlight None) \<and>
    update decorations \<lparr>effects = [SetSelectionHighlight None], changes = cs, tr_state = st'\<rparr> =
      Decoration_none \<and>
    focusChange decorations st True = Decoration_none) \<and>
   (\<not> main_empty st \<longrightarrow>
      focusChangeHandler st False = Some (SetSelectionHighlight (Some (main_from st, main_to st)))) \<and>
   (main_empty st \<longrightarrow>
      focusChangeHandler st False = None \<and> focusChange decorations st False = decorations)"
  by (simp add: focusChangeHandler_def focusChange_def update_def)

theorem focus_transition_witness:
  "focusChangeHandler \<lparr>doc = ''hello'', sel_anchor = 4, sel_head = 1\<rparr> False =
     Some (SetSelectionHighlight (Some (1, 4))) \<and>
   focusChange [(0, 2, selectionMark)] \<lparr>doc = ''hello'', sel_anchor = 3, sel_head = 3\<rparr> False =
     [(0, 2, selectionMark)] \<and>
   focusChange [(0, 2, selectionMark)] \<lparr>doc = ''hello'', sel_anchor = 4, sel_head = 1\<rparr> True =
     Decoration_none"
  using focus_transition [of "\<lparr>doc = ''hello'', sel_anchor = 4, sel_head = 1\<rparr>" "[(0, 2, selectionMark)]"]
    focus_transition [of "\<lparr>doc = ''hello'', sel_anchor = 3, sel_head = 3\<rparr>" "[(0, 2, selectionMark)]"]
  by (simp add: main_empty_def main_from_def main_to_def)

text \<open>
  C9. A transaction carries a non-null \<^verbatim>\<open>setSelectionHighlight\<close> effect with value
  \<open>(f, t)\<close>. When that effect is the one the loop reaches first (only effects of other
  kinds stand before it), \<^verbatim>\<open>update\<close> yields the single mark at \<open>(f, t)\<close> if \<open>f < t\<close> and
  \<open>t\<close> is at most the length of the transaction's resulting document, and the empty
  decoration set for every other value. Whichever effect decides, the result is the
  empty set or one mark within the bounds of the document; \<^verbatim>\<open>update\<close> has no failing
  branch.
\<close>

theorem update_bounds_checked:
  assumes "effects tr = pre @ SetSelectionHighlight (Some (f, t)) # es"
  shows "(set pre \<subseteq> {OtherEffect} \<longrightarrow>
            update decorations tr =
              (if f < t \<and> t \<le> length (doc (tr_state tr)) then [(f, t, selectionMark)]
               else Decoration_none)) \<and>
         (update decorations tr = Decoration_none \<or>
            (\<exists>f' t'. f' < t' \<and> t' \<le> length (doc (tr_state tr)) \<and>
               update decorations tr = [(f', t', selectionMark)]))"
proof
  show "set pre \<subseteq> {OtherEffect} \<longrightarrow>
            update decorations tr =
              (if f < t \<and> t \<le> length (doc (tr_state tr)) then [(f, t, selectionMark)]
               else Decoration_none)"
    using assms by (simp add: update_def effectDecorations_skip)
next
  have "SetSelectionHighlight (Some (f, t)) \<in> set (effects tr)"
    using assms by simp
  then show "update decorations tr = Decoration_none \<or>
            (\<exists>f' t'. f' < t' \<and> t' \<le> length (doc (tr_state tr)) \<and>
               update decorations tr = [(f', t', selectionMark)])"
    using effectDecorations_cases [of "length (doc (tr_state tr))" "effects tr"]
    by (auto simp: update_def)
qed

theorem update_bounds_checked_witness:
  "update [] \<lparr>effects = [OtherEffect, SetSelectionHighlight (Some (1, 3))], changes = [],
              tr_state = \<lparr>doc = ''hello'', sel_anchor = 0, sel_head = 0\<rparr>\<rparr> = [(1, 3, selectionMark)]
   \<and> update [(0, 2, selectionMark)]
        \<lparr>effects = [SetSelectionHighlight (Some (2, 9))], changes = [],
         tr_state = \<lparr>doc = ''hello'', sel_anchor = 0, sel_head = 0\<rparr>\<rparr> = Decoration_none"
  using update_bounds_checked [of "\<lparr>effects = [OtherEffect, SetSelectionHighlight (Some (1, 3))], changes = [],
              tr_state = \<lparr>doc = ''hello'', sel_anchor = 0, sel_head = 0\<rparr>\<rparr>" "[OtherEffect]" 1 3 "[]" "[]"]
    update_bounds_checked [of "\<lparr>effects = [SetSelectionHighlight (Some (2, 9))], changes = [],
         tr_state = \<lparr>doc = ''hello'', sel_anchor = 0, sel_head = 0\<rparr>\<rparr>" "[]" 2 9 "[]" "[(0, 2, selectionMark)]"]
  by simp




text \<open>The field holds marks over some text only.\<close>

lemma update_marks_proper:
  assumes "\<forall>(f, t, d) \<in> set decorations. f < t"
  shows "\<forall>(f, t, d) \<in> set (update decorations tr). f < t"
proof (cases "effectDecorations (length (doc (tr_state tr))) (effects tr)")
  case None
  with assms show ?thesis
    by (auto simp: update_def mapDecorations_def)
next
  case (Some ds)
  with effectDecorations_cases [of "length (doc (tr_state tr))" "effects tr"] show ?thesis
    by (auto simp: update_def Decoration_none_def)
qed




section \<open>Lines and offsets\<close>

lemma joinLines_Cons:
  "ls \<noteq> [] \<Longrightarrow> joinLines (l # ls) = l @ lineBreak # joinLines ls"
  by (cases ls) simp_all

lemma offsetOf_0: "offsetOf (x # xs) 0 c = c"
  by (simp add: offsetOf_def)

lemma offsetOf_Suc: "offsetOf (x # xs) (Suc l) c = Suc (length x) + offsetOf xs l c"
  by (simp add: offsetOf_def)

lemma offsetOf_add: "offsetOf ls l c = offsetOf ls l 0 + c"
  by (simp add: offsetOf_def)

lemma take_joinLines_first:
  "c \<le> length x \<Longrightarrow> take c (joinLines (x # xs)) = take c x"
  by (cases xs) simp_all

lemma takeWhile_no_break:
  "b \<notin> set p \<Longrightarrow> takeWhile (\<lambda>c. c \<noteq> b) p = p"
  by (induction p) auto

lemma takeWhile_rev_after_break:
  "takeWhile (\<lambda>c. c \<noteq> b) (rev p @ b # q) = takeWhile (\<lambda>c. c \<noteq> b) (rev p)"
proof (cases "b \<in> set p")
  case True
  then show ?thesis by (auto simp: takeWhile_append)
next
  case False
  then have tw: "takeWhile (\<lambda>c. c \<noteq> b) (rev p) = rev p"
    by (simp add: takeWhile_no_break)
  from False have app: "takeWhile (\<lambda>c. c \<noteq> b) (rev p @ b # q) = rev p @ takeWhile (\<lambda>c. c \<noteq> b) (b # q)"
    by (intro takeWhile_append2) auto
  have stop: "takeWhile (\<lambda>c. c \<noteq> b) (b # q) = []"
    by simp
  show ?thesis
    unfolding app stop tw by simp
qed

text \<open>
  In the join of lines without line breaks, the offset of position \<open>(l, c)\<close> has \<open>l\<close> line
  breaks before it, and \<open>c\<close> characters since the last of them.
\<close>

lemma position_in_joinLines:
  assumes "\<forall>x \<in> set ls. lineBreak \<notin> set x" "l < length ls" "c \<le> length (ls ! l)"
  shows "offsetOf ls l c \<le> length (joinLines ls) \<and>
         count_list (take (offsetOf ls l c) (joinLines ls)) lineBreak = l \<and>
         length (takeWhile (\<lambda>c. c \<noteq> lineBreak) (rev (take (offsetOf ls l c) (joinLines ls)))) = c"
  using assms
proof (induction ls arbitrary: l)
  case Nil
  then show ?case by simp
next
  case (Cons x xs)
  show ?case
  proof (cases l)
    case 0
    with Cons.prems have c: "c \<le> length x" and nb: "lineBreak \<notin> set x" by simp_all
    have nbt: "lineBreak \<notin> set (take c x)"
      using nb by (meson in_set_takeD)
    have tw: "takeWhile (\<lambda>c. c \<noteq> lineBreak) (rev (take c x)) = rev (take c x)"
      using nbt by (simp add: takeWhile_no_break)
    have len: "c \<le> length (joinLines (x # xs))"
      using c by (cases xs) simp_all
    show ?thesis
      using c nbt len 0
      by (simp add: offsetOf_0 take_joinLines_first count_list_0_iff tw)
  next
    case (Suc l')
    with Cons.prems have l': "l' < length xs" and c: "c \<le> length (xs ! l')"
      and nbx: "lineBreak \<notin> set x" and nbs: "\<forall>y \<in> set xs. lineBreak \<notin> set y"
      by simp_all
    from l' have ne: "xs \<noteq> []" by auto
    let ?k = "offsetOf xs l' c"
    from Cons.IH [OF nbs l' c]
    have k: "?k \<le> length (joinLines xs)"
      and cnt: "count_list (take ?k (joinLines xs)) lineBreak = l'"
      and col: "length (takeWhile (\<lambda>c. c \<noteq> lineBreak) (rev (take ?k (joinLines xs)))) = c"
      by simp_all
    have tk: "take (Suc (length x) + ?k) (joinLines (x # xs)) = x @ lineBreak # take ?k (joinLines xs)"
      by (simp add: joinLines_Cons [OF ne])
    have cx: "count_list x lineBreak = 0"
      using nbx by (simp add: count_list_0_iff)
    show ?thesis
      using k cnt col cx
      by (simp add: Suc offsetOf_Suc tk joinLines_Cons [OF ne] takeWhile_rev_after_break del: joinLines.simps)
  qed
qed

lemma lineAt_joinLines:
  assumes "\<forall>x \<in> set ls. lineBreak \<notin> set x" "l < length ls" "c \<le> length (ls ! l)"
  shows "lineAt (joinLines ls) (offsetOf ls l c) =
           Some \<lparr>line_number = Suc l, line_from = offsetOf ls l c - c\<rparr>"
  using position_in_joinLines [OF assms] by (simp add: lineAt_def)

lemma drop_offset_joinLines:
  "l < length ls \<Longrightarrow> \<exists>rest. drop (offsetOf ls l 0) (joinLines ls) = ls ! l @ rest"
proof (induction ls arbitrary: l)
  case Nil
  then show ?case by simp
next
  case (Cons x xs)
  show ?case
  proof (cases l)
    case 0
    show ?thesis
      by (cases xs) (simp_all add: 0 offsetOf_0)
  next
    case (Suc l')
    with Cons.prems have l': "l' < length xs" by simp
    then have ne: "xs \<noteq> []" by auto
    from Cons.IH [OF l'] obtain rest where "drop (offsetOf xs l' 0) (joinLines xs) = xs ! l' @ rest" ..
    then show ?thesis
      by (simp add: Suc offsetOf_Suc joinLines_Cons [OF ne] del: joinLines.simps)
  qed
qed

lemma slice_within_line:
  assumes "l < length ls" "c1 \<le> c2" "c2 \<le> length (ls ! l)"
  shows "sliceString (joinLines ls) (offsetOf ls l c1) (offsetOf ls l c2) =
           take (c2 - c1) (drop c1 (ls ! l))"
proof -
  from drop_offset_joinLines [OF assms(1)]
  obtain rest where d: "drop (offsetOf ls l 0) (joinLines ls) = ls ! l @ rest" ..
  have "drop (offsetOf ls l c1) (joinLines ls) = drop c1 (drop (offsetOf ls l 0) (joinLines ls))"
    by (simp add: offsetOf_add [of ls l c1] add.commute)
  also have "\<dots> = drop c1 (ls ! l) @ rest"
    using assms by (simp add: d)
  finally have "drop (offsetOf ls l c1) (joinLines ls) = drop c1 (ls ! l) @ rest" .
  moreover have "offsetOf ls l c2 - offsetOf ls l c1 = c2 - c1"
    by (simp add: offsetOf_def)
  ultimately show ?thesis
    using assms by (simp add: sliceString_def)
qed

text \<open>
  Every document is the join of its lines, none of which holds a line break, and every
  offset up to its length is the offset of a position in them: the statements about
  \<open>joinLines\<close> and \<open>offsetOf\<close> below leave out no document and no selection.
\<close>

lemma splitLines_nonempty: "splitLines d \<noteq> []"
  by (induction d) (auto split: list.splits)

lemma joinLines_splitLines: "joinLines (splitLines d) = d"
proof (induction d)
  case Nil
  then show ?case by simp
next
  case (Cons x xs)
  obtain h tl where s: "splitLines xs = h # tl"
    using splitLines_nonempty [of xs] by (cases "splitLines xs") auto
  show ?case
  proof (cases "x = lineBreak")
    case True
    with Cons s show ?thesis by simp
  next
    case False
    with Cons s show ?thesis by (cases tl) simp_all
  qed
qed

lemma splitLines_no_break: "\<forall>l \<in> set (splitLines d). lineBreak \<notin> set l"
  by (induction d) (auto split: list.splits)

lemma every_offset_is_a_position:
  "pos \<le> length d \<Longrightarrow>
     \<exists>l c. l < length (splitLines d) \<and> c \<le> length (splitLines d ! l) \<and>
           pos = offsetOf (splitLines d) l c"
proof (induction d arbitrary: pos)
  case Nil
  then show ?case by (simp add: offsetOf_def)
next
  case (Cons x xs)
  obtain h tl where s: "splitLines xs = h # tl"
    using splitLines_nonempty [of xs] by (cases "splitLines xs") auto
  show ?case
  proof (cases pos)
    case 0
    have "0 < length (splitLines (x # xs))"
      using splitLines_nonempty [of "x # xs"] by blast
    then show ?thesis
      unfolding 0 by (intro exI [of _ 0]) (simp add: offsetOf_def)
  next
    case (Suc p)
    with Cons.prems have "p \<le> length xs" by simp
    from Cons.IH [OF this] obtain l c where
      l: "l < length (splitLines xs)" and c: "c \<le> length (splitLines xs ! l)"
      and p: "p = offsetOf (splitLines xs) l c"
      by blast
    show ?thesis
    proof (cases "x = lineBreak")
      case True
      with l c p Suc show ?thesis
        by (intro exI [of _ "Suc l"] exI [of _ c]) (simp add: offsetOf_Suc)
    next
      case False
      show ?thesis
      proof (cases l)
        case 0
        with False l c p Suc s show ?thesis
          by (intro exI [of _ 0] exI [of _ "Suc c"]) (simp add: offsetOf_0)
      next
        case (Suc k)
        with False l c p \<open>pos = Suc p\<close> s show ?thesis
          by (intro exI [of _ "Suc k"] exI [of _ c]) (simp add: offsetOf_Suc)
      qed
    qed
  qed
qed

text \<open>Of two offsets, the later one is on a later line or further along the same line.\<close>

lemma later_offset_differs:
  assumes "f < t" "t \<le> length d"
  shows "count_list (take f d) b \<noteq> count_list (take t d) b \<or>
         length (takeWhile (\<lambda>c. c \<noteq> b) (rev (take f d))) <
         length (takeWhile (\<lambda>c. c \<noteq> b) (rev (take t d)))"
proof (cases "count_list (take f d) b = count_list (take t d) b")
  case False
  then show ?thesis by simp
next
  case True
  define mid where "mid = take (t - f) (drop f d)"
  have split: "take t d = take f d @ mid"
    using assms take_add [of f "t - f" d] by (simp add: mid_def)
  have len: "length mid = t - f"
    using assms by (simp add: mid_def)
  from True split have "count_list mid b = 0" by simp
  then have "b \<notin> set mid" by (simp add: count_list_0_iff)
  then have "takeWhile (\<lambda>c. c \<noteq> b) (rev mid @ rev (take f d)) =
             rev mid @ takeWhile (\<lambda>c. c \<noteq> b) (rev (take f d))"
    by (intro takeWhile_append2) auto
  then have "length (takeWhile (\<lambda>c. c \<noteq> b) (rev (take t d))) =
             length mid + length (takeWhile (\<lambda>c. c \<noteq> b) (rev (take f d)))"
    by (simp add: split)
  then show ?thesis
    using assms len by linarith
qed

lemma column_le: "length (takeWhile P (rev (take pos d))) \<le> pos"
  using length_takeWhile_le [of P "rev (take pos d)"] by simp

section \<open>Properties of the selection reads\<close>

text \<open>
  The transaction-state read succeeds exactly when the state can be reached and the
  selection lies within the document, and then it returns the slice and the two
  positions.
\<close>

lemma readTransactionState_Some:
  assumes "cm e = Some st" "main_to st \<le> length (doc st)"
  shows "readTransactionState e =
     Some (sliceString (doc st) (main_from st) (main_to st),
       \<lparr>start_pos = \<lparr>line = count_list (take (main_from st) (doc st)) lineBreak,
                     character = length (takeWhile (\<lambda>c. c \<noteq> lineBreak) (rev (take (main_from st) (doc st))))\<rparr>,
        end_pos = \<lparr>line = count_list (take (main_to st) (doc st)) lineBreak,
                   character = length (takeWhile (\<lambda>c. c \<noteq> lineBreak) (rev (take (main_to st) (doc st))))\<rparr>,
        isEmpty = (main_from st = main_to st)\<rparr>)"
proof -
  have le: "main_from st \<le> main_to st"
    by (simp add: main_from_def main_to_def)
  have colf: "main_from st - (main_from st - length (takeWhile (\<lambda>c. c \<noteq> lineBreak) (rev (take (main_from st) (doc st)))))
      = length (takeWhile (\<lambda>c. c \<noteq> lineBreak) (rev (take (main_from st) (doc st))))"
    using column_le [of "\<lambda>c. c \<noteq> lineBreak" "main_from st" "doc st"] by simp
  have colt: "main_to st - (main_to st - length (takeWhile (\<lambda>c. c \<noteq> lineBreak) (rev (take (main_to st) (doc st)))))
      = length (takeWhile (\<lambda>c. c \<noteq> lineBreak) (rev (take (main_to st) (doc st))))"
    using column_le [of "\<lambda>c. c \<noteq> lineBreak" "main_to st" "doc st"] by simp
  show ?thesis
  proof (cases "main_from st = main_to st")
    case True
    with assms colt show ?thesis
      by (simp add: readTransactionState_def lineAt_def main_empty_def sliceString_def)
  next
    case False
    with assms le colf colt show ?thesis
      by (simp add: readTransactionState_def lineAt_def main_empty_def)
  qed
qed

lemma readTransactionState_None:
  "readTransactionState e = None \<longleftrightarrow> (case cm e of None \<Rightarrow> True | Some st \<Rightarrow> length (doc st) < main_to st)"
proof (cases "cm e")
  case None
  then show ?thesis by (simp add: readTransactionState_def)
next
  case (Some st)
  have le: "main_from st \<le> main_to st"
    by (simp add: main_from_def main_to_def)
  show ?thesis
  proof (cases "main_to st \<le> length (doc st)")
    case True
    with Some readTransactionState_Some [of e st] show ?thesis by simp
  next
    case False
    with Some show ?thesis
      by (simp add: readTransactionState_def lineAt_def split: option.splits)
  qed
qed

lemma readTransactionState_isEmpty:
  assumes "readTransactionState e = Some (txt, r)"
  shows "isEmpty r \<longleftrightarrow> start_pos r = end_pos r"
proof -
  from assms obtain st where st: "cm e = Some st"
    by (cases "cm e") (simp_all add: readTransactionState_def)
  with assms have inb: "main_to st \<le> length (doc st)"
    using readTransactionState_None [of e] by (cases "main_to st \<le> length (doc st)") simp_all
  have le: "main_from st \<le> main_to st"
    by (simp add: main_from_def main_to_def)
  show ?thesis
  proof (cases "main_from st = main_to st")
    case True
    with assms readTransactionState_Some [OF st inb] show ?thesis by auto
  next
    case False
    with le have "main_from st < main_to st" by simp
    from later_offset_differs [OF this inb, of lineBreak]
    show ?thesis
      using assms readTransactionState_Some [OF st inb] False by auto
  qed
qed

lemmas read_defs =
  readTransactionState_def readEditorApi_def lineAt_def sliceString_def
  main_from_def main_to_def main_empty_def lineBreak_def

lemmas example_defs =
  paragraphs_def paragraphState_def paragraphEditor_def accessorEditor_def exampleViews_def
  editingWorkspace_def accessorWorkspace_def panelWorkspace_def emptyWorkspace_def
  noCache_def oldSelection_def cachedNote_def

lemma paragraph_read:
  "readTransactionState paragraphEditor =
     Some (''56789'', \<lparr>start_pos = \<lparr>line = 2, character = 5\<rparr>,
                       end_pos = \<lparr>line = 2, character = 10\<rparr>, isEmpty = False\<rparr>)"
  by (simp add: read_defs example_defs)

lemma accessor_read:
  "readTransactionState accessorEditor = None"
  by (simp add: read_defs example_defs)

lemma accessor_api:
  "readEditorApi accessorEditor =
     (''x'', \<lparr>start_pos = \<lparr>line = 0, character = 0\<rparr>,
                end_pos = \<lparr>line = 0, character = 0\<rparr>, isEmpty = False\<rparr>)"
  by (simp add: readEditorApi_def accessorEditor_def Let_def)

text \<open>
  C5. A transaction-state read of a document with lines \<open>ls\<close>, whose main selection runs
  from character \<open>c1\<close> of line \<open>l1\<close> to character \<open>c2\<close> of line \<open>l2\<close> (0-based), succeeds
  and yields the range with start \<open>(l1, c1)\<close> and end \<open>(l2, c2)\<close>, empty exactly when the
  two offsets coincide. Each pair is the number of the line \<^verbatim>\<open>lineAt\<close> finds for the
  offset, less one, and the offset less that line's starting offset. The text is the
  substring of the document between the two offsets; within one line it is the
  characters \<open>c1\<close> to \<open>c2\<close> of that line. The witness is the selection of characters 5 to
  10 on line 2.
\<close>

theorem transaction_state_read_positions:
  assumes "cm e = Some st" and "doc st = joinLines ls"
    and "\<forall>x \<in> set ls. lineBreak \<notin> set x"
    and "l1 < length ls" and "c1 \<le> length (ls ! l1)"
    and "l2 < length ls" and "c2 \<le> length (ls ! l2)"
    and "main_from st = offsetOf ls l1 c1" and "main_to st = offsetOf ls l2 c2"
  shows "readTransactionState e =
           Some (sliceString (doc st) (main_from st) (main_to st),
                 \<lparr>start_pos = \<lparr>line = l1, character = c1\<rparr>,
                  end_pos = \<lparr>line = l2, character = c2\<rparr>,
                  isEmpty = (main_from st = main_to st)\<rparr>) \<and>
         (\<exists>fromLine toLine.
            lineAt (doc st) (main_from st) = Some fromLine \<and>
            lineAt (doc st) (main_to st) = Some toLine \<and>
            l1 = line_number fromLine - 1 \<and> c1 = main_from st - line_from fromLine \<and>
            l2 = line_number toLine - 1 \<and> c2 = main_to st - line_from toLine) \<and>
         (l1 = l2 \<longrightarrow>
            sliceString (doc st) (main_from st) (main_to st) = take (c2 - c1) (drop c1 (ls ! l1)))"
proof (intro conjI)
  from position_in_joinLines [OF assms(3) assms(4) assms(5)] assms(2) assms(8)
  have f: "count_list (take (main_from st) (doc st)) lineBreak = l1"
    "length (takeWhile (\<lambda>c. c \<noteq> lineBreak) (rev (take (main_from st) (doc st)))) = c1"
    by simp_all
  from position_in_joinLines [OF assms(3) assms(6) assms(7)] assms(2) assms(9)
  have t: "main_to st \<le> length (doc st)"
    "count_list (take (main_to st) (doc st)) lineBreak = l2"
    "length (takeWhile (\<lambda>c. c \<noteq> lineBreak) (rev (take (main_to st) (doc st)))) = c2"
    by simp_all
  from readTransactionState_Some [OF assms(1) t(1)]
  show "readTransactionState e =
           Some (sliceString (doc st) (main_from st) (main_to st),
                 \<lparr>start_pos = \<lparr>line = l1, character = c1\<rparr>,
                  end_pos = \<lparr>line = l2, character = c2\<rparr>,
                  isEmpty = (main_from st = main_to st)\<rparr>)"
    by (simp add: f t)
next
  have "c1 \<le> offsetOf ls l1 c1" "c2 \<le> offsetOf ls l2 c2"
    by (simp_all add: offsetOf_def)
  with lineAt_joinLines [OF assms(3) assms(4) assms(5)] lineAt_joinLines [OF assms(3) assms(6) assms(7)]
  show "\<exists>fromLine toLine.
            lineAt (doc st) (main_from st) = Some fromLine \<and>
            lineAt (doc st) (main_to st) = Some toLine \<and>
            l1 = line_number fromLine - 1 \<and> c1 = main_from st - line_from fromLine \<and>
            l2 = line_number toLine - 1 \<and> c2 = main_to st - line_from toLine"
    by (simp add: assms(2) assms(8) assms(9))
next
  have le: "main_from st \<le> main_to st"
    by (simp add: main_from_def main_to_def)
  show "l1 = l2 \<longrightarrow>
            sliceString (doc st) (main_from st) (main_to st) = take (c2 - c1) (drop c1 (ls ! l1))"
  proof
    assume eq: "l1 = l2"
    with le assms(8) assms(9) have "c1 \<le> c2"
      by (simp add: offsetOf_def)
    from slice_within_line [OF assms(4) this] assms(7) eq
    show "sliceString (doc st) (main_from st) (main_to st) = take (c2 - c1) (drop c1 (ls ! l1))"
      by (simp add: assms(2) assms(8) assms(9))
  qed
qed

theorem transaction_state_read_positions_witness:
  "main_from paragraphState = offsetOf paragraphs 2 5 \<and>
   main_to paragraphState = offsetOf paragraphs 2 10 \<and>
   readTransactionState paragraphEditor =
     Some (''56789'', \<lparr>start_pos = \<lparr>line = 2, character = 5\<rparr>,
                       end_pos = \<lparr>line = 2, character = 10\<rparr>, isEmpty = False\<rparr>) \<and>
   take (10 - 5) (drop 5 (paragraphs ! 2)) = ''56789''"
proof -
  have h: "cm paragraphEditor = Some paragraphState" "doc paragraphState = joinLines paragraphs"
    "\<forall>x \<in> set paragraphs. lineBreak \<notin> set x"
    "2 < length paragraphs" "5 \<le> length (paragraphs ! 2)" "10 \<le> length (paragraphs ! 2)"
    "main_from paragraphState = offsetOf paragraphs 2 5"
    "main_to paragraphState = offsetOf paragraphs 2 10"
    by (simp_all add: paragraphEditor_def paragraphState_def paragraphs_def lineBreak_def
        main_from_def main_to_def offsetOf_def)
  have s: "sliceString (doc paragraphState) (main_from paragraphState) (main_to paragraphState) = ''56789''"
    by (simp add: paragraphState_def paragraphs_def sliceString_def main_from_def main_to_def)
  have o: "offsetOf paragraphs 2 5 = 27" "offsetOf paragraphs 2 10 = 32"
    by (simp_all add: offsetOf_def paragraphs_def)
  from transaction_state_read_positions [OF h(1) h(2) h(3) h(4) h(5) h(4) h(6) h(7) h(8)] h(7) h(8) s
  show ?thesis by (simp add: o)
qed

section \<open>Properties of the workspace manager\<close>

lemma focused_examples:
  "focusedEditor editingWorkspace = Some (paragraphEditor, \<lparr>path = ''notes/today.md''\<rparr>)"
  "focusedEditor accessorWorkspace = Some (accessorEditor, \<lparr>path = ''notes/today.md''\<rparr>)"
  "focusedEditor panelWorkspace = None"
  "focusedEditor emptyWorkspace = None"
  by (simp_all add: focusedEditor_def editingWorkspace_def accessorWorkspace_def
      panelWorkspace_def emptyWorkspace_def exampleViews_def)

lemma example_fields:
  "getActiveFile editingWorkspace = Some \<lparr>path = ''notes/today.md''\<rparr>"
  "getActiveViewOfType editingWorkspace = Some 11"
  "dateNow editingWorkspace = 5000"
  "fileUrlOf editingWorkspace ''notes/today.md'' = ''file:///vault/notes/today.md''"
  "getActiveViewOfType panelWorkspace = None"
  "getActiveFile panelWorkspace = Some \<lparr>path = ''notes/today.md''\<rparr>"
  "fileUrlOf panelWorkspace ''notes/today.md'' = ''file:///vault/notes/today.md''"
  "getActiveViewOfType emptyWorkspace = None"
  "getActiveFile emptyWorkspace = None"
  "getAbsolutePath panelWorkspace p = ''/vault/'' @ p"
  by (simp_all add: editingWorkspace_def panelWorkspace_def emptyWorkspace_def fileUrlOf_def)

lemma cachedNote_fields:
  "c_text (cachedNote v p) = ''lph''"
  "c_filePath (cachedNote v p) = p"
  "c_selection (cachedNote v p) = oldSelection"
  "c_view (cachedNote v p) = v"
  by (simp_all add: cachedNote_def)

lemma reread_examples:
  "rereadCachedView panelWorkspace (cachedNote (Some 11) p) =
     Some (''56789'', \<lparr>start_pos = \<lparr>line = 2, character = 5\<rparr>,
                       end_pos = \<lparr>line = 2, character = 10\<rparr>, isEmpty = False\<rparr>)"
  "rereadCachedView panelWorkspace (cachedNote (Some 12) p) = None"
  "rereadCachedView panelWorkspace (cachedNote None p) = None"
  by (simp_all add: rereadCachedView_def cachedNote_def panelWorkspace_def editingWorkspace_def
      exampleViews_def paragraph_read)

lemma getCurrentSelection_None:
  "fst (getCurrentSelection m w) = None \<longleftrightarrow> focusedEditor w = None \<and> cachedSelectionState m = None"
  by (auto simp: getCurrentSelection_def split: option.splits prod.splits)

text \<open>
  C4, as the spec states it, fails on the plain accessor: an editor whose
  \<^verbatim>\<open>getSelection()\<close> returns text while \<^verbatim>\<open>getCursor("from")\<close> and \<^verbatim>\<open>getCursor("to")\<close>
  coincide yields a range with \<open>isEmpty = False\<close> and \<open>start = end\<close>.
\<close>

theorem accessor_isEmpty_counterexample:
  "fst (getCurrentSelection noCache accessorWorkspace) =
     Some \<lparr>snap_text = ''x'', snap_filePath = Some ''notes/today.md'',
           snap_selection = \<lparr>start_pos = \<lparr>line = 0, character = 0\<rparr>,
                              end_pos = \<lparr>line = 0, character = 0\<rparr>, isEmpty = False\<rparr>,
           fromCache = False\<rparr> \<and>
   \<not> (isEmpty (snd (readEditorApi accessorEditor)) \<longleftrightarrow>
        start_pos (snd (readEditorApi accessorEditor)) = end_pos (snd (readEditorApi accessorEditor)))"
  by (simp add: getCurrentSelection_def focused_examples liveSelection_def accessor_read
      accessor_api)

text \<open>
  C4, amended. For every range a transaction-state read produces (through the focused
  view, through the cached view, or in \<^verbatim>\<open>sendSelectionContext\<close>), \<open>isEmpty\<close> holds if and
  only if start and end are equal. For the fallback on the plain accessor, \<open>isEmpty\<close>
  holds if and only if \<^verbatim>\<open>getSelection()\<close> returned the empty string, and then start and
  end are equal; the converse holds whenever the accessor reports different
  \<^verbatim>\<open>from\<close> and \<^verbatim>\<open>to\<close> cursors for a non-empty selection text.
\<close>

theorem selection_read_isEmpty:
  "(\<forall>txt r. readTransactionState e = Some (txt, r) \<longrightarrow>
      (isEmpty r \<longleftrightarrow> start_pos r = end_pos r)) \<and>
   (isEmpty (snd (readEditorApi e)) \<longleftrightarrow> getSelection e = []) \<and>
   (isEmpty (snd (readEditorApi e)) \<longrightarrow>
      start_pos (snd (readEditorApi e)) = end_pos (snd (readEditorApi e))) \<and>
   ((getSelection e \<noteq> [] \<longrightarrow> getCursorFrom e \<noteq> getCursorTo e) \<longrightarrow>
      (isEmpty (snd (readEditorApi e)) \<longleftrightarrow>
         start_pos (snd (readEditorApi e)) = end_pos (snd (readEditorApi e))))"
proof (intro conjI)
  show "\<forall>txt r. readTransactionState e = Some (txt, r) \<longrightarrow>
      (isEmpty r \<longleftrightarrow> start_pos r = end_pos r)"
    using readTransactionState_isEmpty by blast
  show "isEmpty (snd (readEditorApi e)) \<longleftrightarrow> getSelection e = []"
    by (simp add: readEditorApi_def Let_def)
  show "isEmpty (snd (readEditorApi e)) \<longrightarrow>
      start_pos (snd (readEditorApi e)) = end_pos (snd (readEditorApi e))"
    by (simp add: readEditorApi_def Let_def)
  show "(getSelection e \<noteq> [] \<longrightarrow> getCursorFrom e \<noteq> getCursorTo e) \<longrightarrow>
      (isEmpty (snd (readEditorApi e)) \<longleftrightarrow>
         start_pos (snd (readEditorApi e)) = end_pos (snd (readEditorApi e)))"
    by (cases "getCursorFrom e"; cases "getCursorTo e") (auto simp: readEditorApi_def Let_def)
qed

theorem selection_read_isEmpty_witness:
  "readTransactionState paragraphEditor =
     Some (''56789'', \<lparr>start_pos = \<lparr>line = 2, character = 5\<rparr>,
                       end_pos = \<lparr>line = 2, character = 10\<rparr>, isEmpty = False\<rparr>) \<and>
   getSelection paragraphEditor \<noteq> [] \<and>
   getCursorFrom paragraphEditor \<noteq> getCursorTo paragraphEditor \<and>
   \<not> isEmpty (snd (readEditorApi paragraphEditor)) \<and>
   start_pos (snd (readEditorApi paragraphEditor)) \<noteq> end_pos (snd (readEditorApi paragraphEditor))"
proof -
  have sel: "getSelection paragraphEditor \<noteq> []"
    and cur: "getCursorFrom paragraphEditor \<noteq> getCursorTo paragraphEditor"
    by (simp_all add: paragraphEditor_def)
  from selection_read_isEmpty [of paragraphEditor] sel cur
  show ?thesis by (auto simp: paragraph_read)
qed

text \<open>
  C1, as the spec states it, fails: a query whose transaction-state read succeeds
  returns the snapshot and leaves the cache slot as it was (here: empty).
\<close>

theorem query_leaves_cache_counterexample:
  "focusedEditor editingWorkspace = Some (paragraphEditor, \<lparr>path = ''notes/today.md''\<rparr>) \<and>
   readTransactionState paragraphEditor =
     Some (''56789'', \<lparr>start_pos = \<lparr>line = 2, character = 5\<rparr>,
                       end_pos = \<lparr>line = 2, character = 10\<rparr>, isEmpty = False\<rparr>) \<and>
   cachedSelectionState (snd (getCurrentSelection noCache editingWorkspace)) = None"
  by (simp add: focused_examples paragraph_read getCurrentSelection_def noCache_def)

text \<open>
  C1, amended. A query (\<^verbatim>\<open>getCurrentSelection\<close>) in which the transaction-state read of
  the focused view's editor succeeds returns the snapshot built from that read with
  \<open>fromCache = False\<close> and leaves the cache unchanged. The cache slot is overwritten by
  \<^verbatim>\<open>sendSelectionContext\<close>: with an active file and an active Markdown view, a
  successful read there stores a \<^verbatim>\<open>CachedSelectionState\<close> built from the read, tagged
  with the active view and the current timestamp.
\<close>

theorem live_read_and_cache_write:
  "(focusedEditor w = Some (e, f) \<and> readTransactionState e = Some (txt, r) \<longrightarrow>
      getCurrentSelection m w =
        (Some \<lparr>snap_text = txt, snap_filePath = Some (path f), snap_selection = r,
               fromCache = False\<rparr>, m)) \<and>
   (getActiveFile w = Some f' \<and> getActiveViewOfType w = Some v \<and>
    readTransactionState e' = Some (txt', r') \<longrightarrow>
      snd (sendSelectionContext m w e') =
        m\<lparr>cachedSelectionState :=
            Some \<lparr>c_text = txt', c_filePath = path f', c_fileUrl = fileUrlOf w (path f'),
                  c_selection = r', c_view = Some v, c_timestamp = dateNow w\<rparr>\<rparr>)"
  by (simp add: getCurrentSelection_def liveSelection_def sendSelectionContext_def Let_def)

theorem live_read_and_cache_write_witness:
  "getCurrentSelection noCache editingWorkspace =
     (Some \<lparr>snap_text = ''56789'', snap_filePath = Some ''notes/today.md'',
            snap_selection = \<lparr>start_pos = \<lparr>line = 2, character = 5\<rparr>,
                               end_pos = \<lparr>line = 2, character = 10\<rparr>, isEmpty = False\<rparr>,
            fromCache = False\<rparr>, noCache) \<and>
   cachedSelectionState (snd (sendSelectionContext noCache editingWorkspace paragraphEditor)) =
     Some \<lparr>c_text = ''56789'', c_filePath = ''notes/today.md'',
           c_fileUrl = ''file:///vault/notes/today.md'',
           c_selection = \<lparr>start_pos = \<lparr>line = 2, character = 5\<rparr>,
                           end_pos = \<lparr>line = 2, character = 10\<rparr>, isEmpty = False\<rparr>,
           c_view = Some 11, c_timestamp = 5000\<rparr>"
  using live_read_and_cache_write [of editingWorkspace paragraphEditor "\<lparr>path = ''notes/today.md''\<rparr>"
      "''56789''" "\<lparr>start_pos = \<lparr>line = 2, character = 5\<rparr>,
                       end_pos = \<lparr>line = 2, character = 10\<rparr>, isEmpty = False\<rparr>" noCache
      "\<lparr>path = ''notes/today.md''\<rparr>" 11 paragraphEditor "''56789''"
      "\<lparr>start_pos = \<lparr>line = 2, character = 5\<rparr>,
                       end_pos = \<lparr>line = 2, character = 10\<rparr>, isEmpty = False\<rparr>"]
  by (simp add: focused_examples paragraph_read example_fields noCache_def)

text \<open>
  C2. A query with no qualifying focused view and a cache: when the transaction-state
  read through the cached view reference succeeds, the snapshot carries that read, the
  cached file path and \<open>fromCache = False\<close>; when the reference is null, the view has no
  editor or the read throws, the snapshot is the stored text, file path and selection
  with \<open>fromCache = True\<close>. Every query answered through a focused view, from the
  transaction state or from the plain accessor, has \<open>fromCache = False\<close>.
\<close>

theorem fromCache_flag:
  "(focusedEditor w = None \<and> cachedSelectionState m = Some c \<longrightarrow>
      (\<forall>txt r. rereadCachedView w c = Some (txt, r) \<longrightarrow>
         fst (getCurrentSelection m w) =
           Some \<lparr>snap_text = txt, snap_filePath = Some (c_filePath c), snap_selection = r,
                 fromCache = False\<rparr>) \<and>
      (rereadCachedView w c = None \<longrightarrow>
         fst (getCurrentSelection m w) =
           Some \<lparr>snap_text = c_text c, snap_filePath = Some (c_filePath c),
                 snap_selection = c_selection c, fromCache = True\<rparr>)) \<and>
   (\<forall>e f. focusedEditor w = Some (e, f) \<longrightarrow>
      (\<exists>snap. fst (getCurrentSelection m w) = Some snap \<and> fromCache snap = False \<and>
         (readTransactionState e = None \<longrightarrow> snap_selection snap = snd (readEditorApi e))))"
  by (auto simp: getCurrentSelection_def liveSelection_def cachedSelection_def
      split: option.splits prod.splits)

theorem fromCache_flag_witness:
  "fst (getCurrentSelection \<lparr>cachedSelectionState = Some (cachedNote (Some 11) ''notes/today.md'')\<rparr>
          panelWorkspace) =
     Some \<lparr>snap_text = ''56789'', snap_filePath = Some ''notes/today.md'',
           snap_selection = \<lparr>start_pos = \<lparr>line = 2, character = 5\<rparr>,
                              end_pos = \<lparr>line = 2, character = 10\<rparr>, isEmpty = False\<rparr>,
           fromCache = False\<rparr> \<and>
   fst (getCurrentSelection \<lparr>cachedSelectionState = Some (cachedNote (Some 12) ''notes/today.md'')\<rparr>
          panelWorkspace) =
     Some \<lparr>snap_text = ''lph'', snap_filePath = Some ''notes/today.md'',
           snap_selection = oldSelection, fromCache = True\<rparr> \<and>
   (\<exists>snap. fst (getCurrentSelection noCache accessorWorkspace) = Some snap \<and>
      fromCache snap = False \<and> snap_selection snap = snd (readEditorApi accessorEditor))"
  using fromCache_flag [of panelWorkspace
      "\<lparr>cachedSelectionState = Some (cachedNote (Some 11) ''notes/today.md'')\<rparr>"
      "cachedNote (Some 11) ''notes/today.md''"]
    fromCache_flag [of panelWorkspace
      "\<lparr>cachedSelectionState = Some (cachedNote (Some 12) ''notes/today.md'')\<rparr>"
      "cachedNote (Some 12) ''notes/today.md''"]
    fromCache_flag [of accessorWorkspace noCache undefined]
  by (simp add: focused_examples reread_examples accessor_read cachedNote_fields)

text \<open>
  C3. When the query yields no snapshot, or one without a file path, the notification
  of \<^verbatim>\<open>sendCurrentFileContext\<close> carries the empty text, the active file's path (or
  \<^verbatim>\<open>null\<close> when there is none), and as its selection the empty range at \<open>(0, 0)\<close>: the
  selection is a range in every case.
\<close>

theorem no_selection_shape:
  assumes "fst (getCurrentSelection m w) = None \<or>
           (\<exists>snap. fst (getCurrentSelection m w) = Some snap \<and> snap_filePath snap = None)"
  shows "fst (sendCurrentFileContext m w) =
           [\<lparr>jsonrpc = ''2.0'', rpc_method = ''selection_changed'',
             params = \<lparr>p_text = [],
                        p_filePath = (case getActiveFile w of None \<Rightarrow> None | Some f \<Rightarrow> Some (path f)),
                        p_fileUrl = (case getActiveFile w of None \<Rightarrow> None
                                     | Some f \<Rightarrow> Some (''file://'' @ getAbsolutePath w (path f))),
                        p_selection = \<lparr>start_pos = \<lparr>line = 0, character = 0\<rparr>,
                                        end_pos = \<lparr>line = 0, character = 0\<rparr>,
                                        isEmpty = True\<rparr>\<rparr>\<rparr>]"
  using assms
  by (auto simp: sendCurrentFileContext_def shapeParams_def noSelectionParams_def emptyRange_def
      broadcastSelectionChange_def fileUrlOf_def split: prod.splits option.splits)

theorem no_selection_shape_witness:
  "fst (getCurrentSelection noCache emptyWorkspace) = None \<and>
   fst (sendCurrentFileContext noCache emptyWorkspace) =
     [\<lparr>jsonrpc = ''2.0'', rpc_method = ''selection_changed'',
       params = \<lparr>p_text = [], p_filePath = None, p_fileUrl = None,
                  p_selection = \<lparr>start_pos = \<lparr>line = 0, character = 0\<rparr>,
                                  end_pos = \<lparr>line = 0, character = 0\<rparr>,
                                  isEmpty = True\<rparr>\<rparr>\<rparr>] \<and>
   fst (sendCurrentFileContext noCache panelWorkspace) =
     [\<lparr>jsonrpc = ''2.0'', rpc_method = ''selection_changed'',
       params = \<lparr>p_text = [], p_filePath = Some ''notes/today.md'',
                  p_fileUrl = Some ''file:///vault/notes/today.md'',
                  p_selection = \<lparr>start_pos = \<lparr>line = 0, character = 0\<rparr>,
                                  end_pos = \<lparr>line = 0, character = 0\<rparr>,
                                  isEmpty = True\<rparr>\<rparr>\<rparr>]"
  using no_selection_shape [of noCache emptyWorkspace] no_selection_shape [of noCache panelWorkspace]
  by (simp add: getCurrentSelection_None focused_examples example_fields noCache_def)









text \<open>
  C10. Without an active file \<^verbatim>\<open>sendSelectionContext\<close> emits nothing and leaves the
  manager as it was; without an active Markdown view it leaves the cache as it was; and
  an event changes the cache slot only when it is a selection change that reaches
  \<^verbatim>\<open>sendSelectionContext\<close> with an active Markdown view and an active file.
\<close>

theorem selection_context_frame:
  "(getActiveFile w = None \<longrightarrow> sendSelectionContext m w e = ([], m)) \<and>
   (getActiveViewOfType w = None \<longrightarrow> snd (sendSelectionContext m w e) = m) \<and>
   (cachedSelectionState (snd (handleEvent m w ev)) \<noteq> cachedSelectionState m \<longrightarrow>
      (\<exists>ed. ev = SelectionChange True (Some ed)) \<and>
      getActiveViewOfType w \<noteq> None \<and> getActiveFile w \<noteq> None)"
proof (intro conjI)
  show "getActiveFile w = None \<longrightarrow> sendSelectionContext m w e = ([], m)"
    by (simp add: sendSelectionContext_def)
  show nv: "getActiveViewOfType w = None \<longrightarrow> snd (sendSelectionContext m w e) = m" for e
    by (simp add: sendSelectionContext_def Let_def split: option.splits prod.splits)
  have q: "snd (sendCurrentFileContext m w) = m"
    by (simp add: sendCurrentFileContext_def getCurrentSelection_def split: option.splits prod.splits)
  have nf: "getActiveFile w = None \<longrightarrow> snd (sendSelectionContext m w e) = m" for e
    by (simp add: sendSelectionContext_def)
  show "cachedSelectionState (snd (handleEvent m w ev)) \<noteq> cachedSelectionState m \<longrightarrow>
      (\<exists>ed. ev = SelectionChange True (Some ed)) \<and>
      getActiveViewOfType w \<noteq> None \<and> getActiveFile w \<noteq> None"
  proof (cases ev)
    case ActiveLeafChange
    then show ?thesis by (simp add: q)
  next
    case (FileOpen opened)
    then show ?thesis by (cases opened) (simp_all add: q)
  next
    case (SelectionChange ok ed)
    show ?thesis
    proof (cases ok)
      case False
      with SelectionChange show ?thesis by simp
    next
      case True
      show ?thesis
      proof (cases ed)
        case None
        with SelectionChange True show ?thesis by simp
      next
        case (Some e')
        with SelectionChange True nv [of e'] nf [of e'] show ?thesis by auto
      qed
    qed
  qed
qed

theorem selection_context_frame_witness:
  "sendSelectionContext \<lparr>cachedSelectionState = Some (cachedNote (Some 11) ''notes/today.md'')\<rparr>
     emptyWorkspace paragraphEditor =
     ([], \<lparr>cachedSelectionState = Some (cachedNote (Some 11) ''notes/today.md'')\<rparr>) \<and>
   snd (sendSelectionContext noCache panelWorkspace paragraphEditor) = noCache \<and>
   cachedSelectionState
     (snd (handleEvent noCache editingWorkspace (SelectionChange True (Some paragraphEditor)))) \<noteq>
     cachedSelectionState noCache \<and>
   getActiveViewOfType editingWorkspace \<noteq> None \<and> getActiveFile editingWorkspace \<noteq> None"
  using selection_context_frame [of emptyWorkspace
      "\<lparr>cachedSelectionState = Some (cachedNote (Some 11) ''notes/today.md'')\<rparr>" paragraphEditor]
    selection_context_frame [of panelWorkspace noCache paragraphEditor]
    selection_context_frame [of editingWorkspace noCache paragraphEditor
      "SelectionChange True (Some paragraphEditor)"]
  by (simp add: example_fields sendSelectionContext_def paragraph_read Let_def noCache_def)

end
